theory Spec2Isabelle
  imports Main "HOL-Library.Char_ord" "HOL-Library.List_Lexorder"
begin

section \<open>Activity and announcement endpoints of the school management API\<close>

text \<open>
  A shallow embedding of \<^verbatim>\<open>src/backend/routers/activities.py\<close>. Every handler is a
  function of the store and of the request parameters; a handler that writes returns
  the store it leaves behind together with its answer, and a raised
  \<^verbatim>\<open>HTTPException\<close> is the left summand of the answer.

  Python strings are \<^typ>\<open>string\<close> (the UTF-8 bytes, whose lexicographic order is the
  order of the code points that Python compares), \<^verbatim>\<open>Optional[str]\<close> is
  \<^typ>\<open>string option\<close>.
\<close>

subsection \<open>Documents\<close>

text \<open>
  \<^verbatim>\<open>schedule_details\<close> is a sub-document; each of its keys may be missing, which is
  what \<^verbatim>\<open>sd.get(key)\<close> tests.
\<close>

record schedule =
  sd_days :: "string list option"
  sd_start_time :: "string option"
  sd_end_time :: "string option"

text \<open>
  An activity document without its \<^verbatim>\<open>_id\<close>: the value that \<^verbatim>\<open>list_activities\<close>
  returns for each name. \<^verbatim>\<open>other_fields\<close> holds the keys the handlers never read
  (description, capacity and so on).
\<close>

record details =
  d_name :: "string option"
  schedule_details :: "schedule option"
  participants :: "string list"
  other_fields :: "(string \<times> string) list"

record activity = details +
  act_id :: string

record announcement =
  ann_id :: string
  ann_message :: string
  ann_expiration_date :: string
  ann_start_date :: "string option"
  ann_other :: "(string \<times> string) list"

text \<open>
  The three collections, each in the order \<^verbatim>\<open>find({})\<close> yields its documents. Of a
  teacher document the handlers read only the \<^verbatim>\<open>_id\<close>, so the collection is the list
  of these.
\<close>

record store =
  activities :: "activity list"
  teachers :: "string list"
  announcements :: "announcement list"

datatype http_error = HTTPException (status_code: nat) (detail: string)

subsection \<open>The collection operations the handlers call\<close>

text \<open>
  The module \<^verbatim>\<open>database\<close> that provides the three collections is not among the
  sources; the operations below follow the storage contract of the specification
  (find-one, update-one with its counts, delete-one with its count, insert-one, and an
  aggregation with unwind, group and sort).
\<close>

text \<open>
  Modelled from the spec: \<^verbatim>\<open>find_one(filter)\<close> of a collection of the missing
  \<^verbatim>\<open>database\<close> module: the first document that matches, or None.
\<close>

definition find_one :: "('a \<Rightarrow> bool) \<Rightarrow> 'a list \<Rightarrow> 'a option" where
  "find_one p docs = find p docs"

text \<open>
  Modelled from the spec: \<^verbatim>\<open>update_one(filter, mutation)\<close> of a collection of the
  missing \<^verbatim>\<open>database\<close> module. It changes the first matching document and reports
  \<^verbatim>\<open>matched_count\<close> and \<^verbatim>\<open>modified_count\<close>; a mutation that leaves the document as it
  was counts as matched and not modified.
\<close>

fun update_one :: "('a \<Rightarrow> bool) \<Rightarrow> ('a \<Rightarrow> 'a) \<Rightarrow> 'a list \<Rightarrow> 'a list \<times> nat \<times> nat" where
  "update_one p f [] = ([], 0, 0)"
| "update_one p f (x # xs) =
     (if p x then (f x # xs, 1, if f x = x then 0 else 1)
      else (case update_one p f xs of (ys, matched, modified) \<Rightarrow> (x # ys, matched, modified)))"

text \<open>
  Modelled from the spec: \<^verbatim>\<open>delete_one(filter)\<close> of a collection of the missing
  \<^verbatim>\<open>database\<close> module. It removes the first matching document and reports
  \<^verbatim>\<open>deleted_count\<close>.
\<close>

fun delete_one :: "('a \<Rightarrow> bool) \<Rightarrow> 'a list \<Rightarrow> 'a list \<times> nat" where
  "delete_one p [] = ([], 0)"
| "delete_one p (x # xs) =
     (if p x then (xs, 1)
      else (case delete_one p xs of (ys, deleted) \<Rightarrow> (x # ys, deleted)))"

text \<open>
  Modelled from the spec: the update operators of the store, append-to-set and
  remove-from-set. \<^verbatim>\<open>$push\<close> appends, \<^verbatim>\<open>$pull\<close> removes every occurrence.
\<close>

definition push_participant :: "string \<Rightarrow> activity \<Rightarrow> activity" where
  "push_participant email a = a\<lparr>participants := participants a @ [email]\<rparr>"

definition pull_participant :: "string \<Rightarrow> activity \<Rightarrow> activity" where
  "pull_participant email a = a\<lparr>participants := filter (\<lambda>p. p \<noteq> email) (participants a)\<rparr>"

text \<open>Truthiness of an \<^verbatim>\<open>Optional[str]\<close>: None and the empty string are false.\<close>

fun truthy :: "string option \<Rightarrow> bool" where
  "truthy None = False"
| "truthy (Some s) = (s \<noteq> [])"

subsection \<open>Signup and unregister\<close>

definition signup_for_activity ::
  "store \<Rightarrow> string \<Rightarrow> string \<Rightarrow> string option \<Rightarrow> (http_error + string) \<times> store" where
  "signup_for_activity st activity_name email teacher_username =
     (if \<not> truthy teacher_username then
        (Inl (HTTPException 401 ''Authentication required for this action''), st)
      else case find_one (\<lambda>t. t = the teacher_username) (teachers st) of
        None \<Rightarrow> (Inl (HTTPException 401 ''Invalid teacher credentials''), st)
      | Some teacher \<Rightarrow>
          (case find_one (\<lambda>a. act_id a = activity_name) (activities st) of
             None \<Rightarrow> (Inl (HTTPException 404 ''Activity not found''), st)
           | Some activity \<Rightarrow>
               if email \<in> set (participants activity) then
                 (Inl (HTTPException 400 ''Already signed up for this activity''), st)
               else
                 (case update_one (\<lambda>a. act_id a = activity_name) (push_participant email)
                         (activities st) of
                    (docs, matched_count, modified_count) \<Rightarrow>
                      if modified_count = 0 then
                        (Inl (HTTPException 500 ''Failed to update activity''),
                         st\<lparr>activities := docs\<rparr>)
                      else
                        (Inr (''Signed up '' @ email @ '' for '' @ activity_name),
                         st\<lparr>activities := docs\<rparr>))))"

definition unregister_from_activity ::
  "store \<Rightarrow> string \<Rightarrow> string \<Rightarrow> string option \<Rightarrow> (http_error + string) \<times> store" where
  "unregister_from_activity st activity_name email teacher_username =
     (if \<not> truthy teacher_username then
        (Inl (HTTPException 401 ''Authentication required for this action''), st)
      else case find_one (\<lambda>t. t = the teacher_username) (teachers st) of
        None \<Rightarrow> (Inl (HTTPException 401 ''Invalid teacher credentials''), st)
      | Some teacher \<Rightarrow>
          (case find_one (\<lambda>a. act_id a = activity_name) (activities st) of
             None \<Rightarrow> (Inl (HTTPException 404 ''Activity not found''), st)
           | Some activity \<Rightarrow>
               if email \<notin> set (participants activity) then
                 (Inl (HTTPException 400 ''Not registered for this activity''), st)
               else
                 (case update_one (\<lambda>a. act_id a = activity_name) (pull_participant email)
                         (activities st) of
                    (docs, matched_count, modified_count) \<Rightarrow>
                      if modified_count = 0 then
                        (Inl (HTTPException 500 ''Failed to update activity''),
                         st\<lparr>activities := docs\<rparr>)
                      else
                        (Inr (''Unregistered '' @ email @ '' from '' @ activity_name),
                         st\<lparr>activities := docs\<rparr>))))"

subsection \<open>Dates\<close>

text \<open>
  \<^verbatim>\<open>datetime.strptime(s, "%Y-%m-%d")\<close> on ASCII input. The library turns the format
  into the regular expression
  \<^verbatim>\<open>(\d\d\d\d)-(1[0-2]|0[1-9]|[1-9])-(3[0-1]|[1-2]\d|0[1-9]|[1-9]| [1-9])\<close>,
  matches it at the start of the string, raises ValueError when nothing matches or
  when text is left behind the match, and then builds the date, which raises ValueError
  for year 0 and for a day the month does not have. \<^verbatim>\<open>None\<close> stands for ValueError.
\<close>

definition is_digit :: "char \<Rightarrow> bool" where
  "is_digit c = (CHR ''0'' \<le> c \<and> c \<le> CHR ''9'')"

definition in_range :: "char \<Rightarrow> char \<Rightarrow> char \<Rightarrow> bool" where
  "in_range lo hi c = (lo \<le> c \<and> c \<le> hi)"

definition digit_val :: "char \<Rightarrow> nat" where
  "digit_val c = of_char c - 48"

text \<open>The alternatives of a group, in the order the expression tries them: the number
  read and the text behind it.\<close>

definition match_month :: "string \<Rightarrow> (nat \<times> string) list" where
  "match_month s =
     (case s of
        a # b # r \<Rightarrow>
          (if a = CHR ''1'' \<and> in_range CHR ''0'' CHR ''2'' b then [(10 + digit_val b, r)] else []) @
          (if a = CHR ''0'' \<and> in_range CHR ''1'' CHR ''9'' b then [(digit_val b, r)] else []) @
          (if in_range CHR ''1'' CHR ''9'' a then [(digit_val a, b # r)] else [])
      | [a] \<Rightarrow> (if in_range CHR ''1'' CHR ''9'' a then [(digit_val a, [])] else [])
      | [] \<Rightarrow> [])"

definition match_day :: "string \<Rightarrow> (nat \<times> string) list" where
  "match_day s =
     (case s of
        a # b # r \<Rightarrow>
          (if a = CHR ''3'' \<and> in_range CHR ''0'' CHR ''1'' b then [(30 + digit_val b, r)] else []) @
          (if in_range CHR ''1'' CHR ''2'' a \<and> is_digit b then [(10 * digit_val a + digit_val b, r)] else []) @
          (if a = CHR ''0'' \<and> in_range CHR ''1'' CHR ''9'' b then [(digit_val b, r)] else []) @
          (if in_range CHR ''1'' CHR ''9'' a then [(digit_val a, b # r)] else []) @
          (if a = CHR '' '' \<and> in_range CHR ''1'' CHR ''9'' b then [(digit_val b, r)] else [])
      | [a] \<Rightarrow> (if in_range CHR ''1'' CHR ''9'' a then [(digit_val a, [])] else [])
      | [] \<Rightarrow> [])"

text \<open>The first way to match month, dash and day: the month, the day and the text left.\<close>

fun match_month_day :: "(nat \<times> string) list \<Rightarrow> (nat \<times> nat \<times> string) option" where
  "match_month_day [] = None"
| "match_month_day ((m, r) # alts) =
     (case r of
        c # r' \<Rightarrow>
          (if c = CHR ''-'' then
             (case match_day r' of
                (d, left) # _ \<Rightarrow> Some (m, d, left)
              | [] \<Rightarrow> match_month_day alts)
           else match_month_day alts)
      | [] \<Rightarrow> match_month_day alts)"

definition is_leap :: "nat \<Rightarrow> bool" where
  "is_leap y = (y mod 4 = 0 \<and> (y mod 100 \<noteq> 0 \<or> y mod 400 = 0))"

definition days_in_month :: "nat \<Rightarrow> nat \<Rightarrow> nat" where
  "days_in_month y m =
     (if m = 2 then (if is_leap y then 29 else 28)
      else if m = 4 \<or> m = 6 \<or> m = 9 \<or> m = 11 then 30 else 31)"

definition strptime :: "string \<Rightarrow> (nat \<times> nat \<times> nat) option" where
  "strptime s =
     (case s of
        y1 # y2 # y3 # y4 # c # r \<Rightarrow>
          (if is_digit y1 \<and> is_digit y2 \<and> is_digit y3 \<and> is_digit y4 \<and> c = CHR ''-'' then
             (case match_month_day (match_month r) of
                None \<Rightarrow> None
              | Some (m, d, left) \<Rightarrow>
                  (let y = 1000 * digit_val y1 + 100 * digit_val y2 + 10 * digit_val y3 + digit_val y4
                   in if left \<noteq> [] then None
                      else if y < 1 \<or> d < 1 \<or> days_in_month y m < d then None
                      else Some (y, m, d)))
           else None)
      | _ \<Rightarrow> None)"

subsection \<open>Announcements\<close>

definition is_authenticated :: "store \<Rightarrow> string \<Rightarrow> bool" where
  "is_authenticated st username = (find_one (\<lambda>t. t = username) (teachers st) \<noteq> None)"

definition get_announcements :: "store \<Rightarrow> announcement list" where
  "get_announcements st = map (\<lambda>a. a\<lparr>ann_id := ann_id a\<rparr>) (announcements st)"

text \<open>The \<^verbatim>\<open>try\<close> block of both writers: ValueError from either date.\<close>

definition dates_raise :: "string \<Rightarrow> string option \<Rightarrow> bool" where
  "dates_raise expiration_date start_date =
     (strptime expiration_date = None \<or>
      (truthy start_date \<and> strptime (the start_date) = None))"

text \<open>
  \<^verbatim>\<open>insert_one\<close> of the missing \<^verbatim>\<open>database\<close> module appends the document and
  gives it the identity the store chooses; the choice is the argument \<open>new_id\<close>.
\<close>

definition create_announcement ::
  "store \<Rightarrow> string \<Rightarrow> string \<Rightarrow> string \<Rightarrow> string \<Rightarrow> string option \<Rightarrow>
   (http_error + announcement) \<times> store" where
  "create_announcement st new_id username message expiration_date start_date =
     (if \<not> is_authenticated st username then
        (Inl (HTTPException 401 ''Authentication required''), st)
      else if message = [] \<or> expiration_date = [] then
        (Inl (HTTPException 400 ''Message and expiration date required''), st)
      else if dates_raise expiration_date start_date then
        (Inl (HTTPException 400 ''Invalid date format (YYYY-MM-DD)''), st)
      else
        (let doc = \<lparr>ann_id = new_id, ann_message = message,
                    ann_expiration_date = expiration_date,
                    ann_start_date = (if truthy start_date then start_date else None),
                    ann_other = []\<rparr>
         in (Inr doc, st\<lparr>announcements := announcements st @ [doc]\<rparr>)))"

text \<open>The \<^verbatim>\<open>$set\<close> of \<^verbatim>\<open>update_doc\<close>: \<^verbatim>\<open>start_date\<close> is a key of it only when truthy.\<close>

definition set_update_doc :: "string \<Rightarrow> string \<Rightarrow> string option \<Rightarrow> announcement \<Rightarrow> announcement" where
  "set_update_doc message expiration_date start_date a =
     (let a' = a\<lparr>ann_message := message, ann_expiration_date := expiration_date\<rparr>
      in if truthy start_date then a'\<lparr>ann_start_date := start_date\<rparr> else a')"

text \<open>
  After the update the handler reads the document again; \<^verbatim>\<open>doc["_id"]\<close> on a missing
  document is a TypeError, which the framework answers with 500.
\<close>

definition update_announcement ::
  "store \<Rightarrow> string \<Rightarrow> string \<Rightarrow> string \<Rightarrow> string \<Rightarrow> string option \<Rightarrow>
   (http_error + announcement) \<times> store" where
  "update_announcement st announcement_id username message expiration_date start_date =
     (if \<not> is_authenticated st username then
        (Inl (HTTPException 401 ''Authentication required''), st)
      else if dates_raise expiration_date start_date then
        (Inl (HTTPException 400 ''Invalid date format (YYYY-MM-DD)''), st)
      else
        (case update_one (\<lambda>a. ann_id a = announcement_id)
                (set_update_doc message expiration_date start_date) (announcements st) of
           (docs, matched_count, modified_count) \<Rightarrow>
             if matched_count = 0 then
               (Inl (HTTPException 404 ''Announcement not found''), st\<lparr>announcements := docs\<rparr>)
             else
               (case find_one (\<lambda>a. ann_id a = announcement_id) docs of
                  None \<Rightarrow> (Inl (HTTPException 500 ''Internal Server Error''),
                            st\<lparr>announcements := docs\<rparr>)
                | Some doc \<Rightarrow> (Inr doc, st\<lparr>announcements := docs\<rparr>))))"

definition delete_announcement ::
  "store \<Rightarrow> string \<Rightarrow> string \<Rightarrow> (http_error + string \<times> bool) \<times> store" where
  "delete_announcement st announcement_id username =
     (if \<not> is_authenticated st username then
        (Inl (HTTPException 401 ''Authentication required''), st)
      else
        (case delete_one (\<lambda>a. ann_id a = announcement_id) (announcements st) of
           (docs, deleted_count) \<Rightarrow>
             if deleted_count = 0 then
               (Inl (HTTPException 404 ''Announcement not found''), st\<lparr>announcements := docs\<rparr>)
             else (Inr (announcement_id, True), st\<lparr>announcements := docs\<rparr>)))"

subsection \<open>Listing activities\<close>

text \<open>\<^verbatim>\<open>a.get("_id") or a.get("name")\<close>: the second operand when the first is empty.\<close>

definition activity_key :: "activity \<Rightarrow> string option" where
  "activity_key a = (if act_id a \<noteq> [] then Some (act_id a) else d_name a)"

text \<open>\<^verbatim>\<open>(a.get("schedule_details") or {}).get("days", [])\<close>\<close>

definition days_or_empty :: "schedule option \<Rightarrow> string list" where
  "days_or_empty sd =
     (case sd of None \<Rightarrow> [] | Some s \<Rightarrow> (case sd_days s of None \<Rightarrow> [] | Some ds \<Rightarrow> ds))"

text \<open>A sub-document is falsy when it has no key.\<close>

definition empty_schedule :: "schedule \<Rightarrow> bool" where
  "empty_schedule sd = (sd_days sd = None \<and> sd_start_time sd = None \<and> sd_end_time sd = None)"

text \<open>The three \<^verbatim>\<open>continue\<close> tests of the time filter, for truthy bounds.\<close>

definition time_filter_skips :: "string \<Rightarrow> string \<Rightarrow> schedule option \<Rightarrow> bool" where
  "time_filter_skips start_time end_time sdo =
     (case sdo of
        None \<Rightarrow> True
      | Some sd \<Rightarrow>
          if empty_schedule sd then True
          else if \<not> truthy (sd_start_time sd) \<or> \<not> truthy (sd_end_time sd) then True
          else the (sd_start_time sd) < start_time \<or> the (sd_end_time sd) > end_time)"

fun list_activities_loop ::
  "string option \<Rightarrow> string option \<Rightarrow> string option \<Rightarrow> activity list \<Rightarrow>
   (string option \<rightharpoonup> details) \<Rightarrow> (string option \<rightharpoonup> details)" where
  "list_activities_loop day start_time end_time [] results = results"
| "list_activities_loop day start_time end_time (a # rest) results =
     (if truthy day \<and> the day \<notin> set (days_or_empty (schedule_details a)) then
        list_activities_loop day start_time end_time rest results
      else if truthy start_time \<and> truthy end_time \<and>
              time_filter_skips (the start_time) (the end_time) (schedule_details a) then
        list_activities_loop day start_time end_time rest results
      else
        list_activities_loop day start_time end_time rest
          (results(activity_key a \<mapsto> details.truncate a)))"

definition list_activities ::
  "store \<Rightarrow> string option \<Rightarrow> string option \<Rightarrow> string option \<Rightarrow> (string option \<rightharpoonup> details)" where
  "list_activities st day start_time end_time =
     list_activities_loop day start_time end_time (activities st) Map.empty"

subsection \<open>Available days\<close>

text \<open>
  Modelled from the spec: the aggregation of the missing \<^verbatim>\<open>database\<close> module, stage
  by stage. \<^verbatim>\<open>$unwind\<close> yields one document per element of
  \<^verbatim>\<open>schedule_details.days\<close> and none for a document without the array,
  \<^verbatim>\<open>$group\<close> keeps one document per distinct value, \<^verbatim>\<open>$sort\<close> orders them ascending
  by binary string comparison.
\<close>

definition unwind_days :: "activity list \<Rightarrow> string list" where
  "unwind_days docs = concat (map (\<lambda>a. days_or_empty (schedule_details a)) docs)"

definition group_by_id :: "string list \<Rightarrow> string list" where
  "group_by_id ds = remdups ds"

definition sort_by_id :: "string list \<Rightarrow> string list" where
  "sort_by_id ds = sort ds"

definition aggregate :: "activity list \<Rightarrow> string list" where
  "aggregate docs = sort_by_id (group_by_id (unwind_days docs))"

definition get_available_days :: "store \<Rightarrow> string list" where
  "get_available_days st = foldl (\<lambda>days day_doc. days @ [day_doc]) [] (aggregate (activities st))"

subsection \<open>Notions the properties are stated with\<close>

text \<open>The status the framework answers with: that of the exception, or 200.\<close>

definition response_status :: "http_error + 'a \<Rightarrow> nat" where
  "response_status r = (case r of Inl e \<Rightarrow> status_code e | Inr _ \<Rightarrow> 200)"

definition no_duplicate_participants :: "store \<Rightarrow> bool" where
  "no_duplicate_participants st = (\<forall>a\<in>set (activities st). distinct (participants a))"

text \<open>
  An activity reaches \<^verbatim>\<open>results[name] = details\<close> in the loop of
  \<^verbatim>\<open>list_activities\<close> when neither filter takes its \<^verbatim>\<open>continue\<close>.
\<close>

definition reaches_results :: "string option \<Rightarrow> string option \<Rightarrow> string option \<Rightarrow> activity \<Rightarrow> bool" where
  "reaches_results day start_time end_time a =
     (\<not> (truthy day \<and> the day \<notin> set (days_or_empty (schedule_details a))) \<and>
      \<not> (truthy start_time \<and> truthy end_time \<and>
         time_filter_skips (the start_time) (the end_time) (schedule_details a)))"

subsection \<open>A small school, for running the handlers\<close>

definition chess_club :: activity where
  "chess_club =
     \<lparr>d_name = None,
      schedule_details = Some \<lparr>sd_days = Some [''Monday'', ''Friday''],
                               sd_start_time = Some ''09:00'', sd_end_time = Some ''10:00''\<rparr>,
      participants = [''michael@mergington.edu''],
      other_fields = [(''description'', ''Learn strategies'')],
      act_id = ''Chess Club''\<rparr>"

definition art_club :: activity where
  "art_club =
     \<lparr>d_name = None,
      schedule_details = Some \<lparr>sd_days = Some [''Monday''],
                               sd_start_time = Some ''15:30'', sd_end_time = Some ''17:00''\<rparr>,
      participants = [],
      other_fields = [],
      act_id = ''Art Club''\<rparr>"

definition study_hall :: activity where
  "study_hall =
     \<lparr>d_name = None, schedule_details = None, participants = [], other_fields = [],
      act_id = ''Study Hall''\<rparr>"

definition welcome_back :: announcement where
  "welcome_back =
     \<lparr>ann_id = ''a1'', ann_message = ''Welcome back'', ann_expiration_date = ''2099-01-01'',
      ann_start_date = Some ''2025-09-01'', ann_other = []\<rparr>"

definition school :: store where
  "school =
     \<lparr>activities = [chess_club, art_club, study_hall],
      teachers = [''mrodriguez''],
      announcements = [welcome_back]\<rparr>"

text \<open>The same school with a teacher record whose identity is the empty string.\<close>

definition school_blank_teacher :: store where
  "school_blank_teacher = school\<lparr>teachers := ['''', ''mrodriguez'']\<rparr>"

section \<open>Properties\<close>

subsection \<open>The collection operations\<close>

lemma find_one_None_iff: "find_one p xs = None \<longleftrightarrow> (\<forall>x\<in>set xs. \<not> p x)"
  by (auto simp: find_one_def find_None_iff)

lemma find_one_Some_holds: "find_one p xs = Some x \<Longrightarrow> p x \<and> x \<in> set xs"
  by (auto simp: find_one_def find_Some_iff)

lemma find_one_member: "find_one (\<lambda>t. t = u) xs \<noteq> None \<longleftrightarrow> u \<in> set xs"
  by (auto simp: find_one_None_iff)

lemma update_one_unmatched:
  "find_one p xs = None \<Longrightarrow> update_one p f xs = (xs, 0, 0)"
  by (induction xs) (auto simp: find_one_def split: if_splits)

lemma update_one_matched:
  "find_one p xs = Some a \<Longrightarrow>
   snd (update_one p f xs) = (1, if f a = a then 0 else 1)"
  by (induction xs) (auto simp: find_one_def split: if_splits prod.splits)

lemma delete_one_zero: "delete_one p xs = (ys, 0) \<Longrightarrow> ys = xs"
  by (induction xs arbitrary: ys) (auto split: if_splits prod.splits)

text \<open>When the mutation keeps what the filter tests, the filter finds the mutated
  document afterwards.\<close>

lemma update_one_find:
  assumes "\<And>x. p (f x) = p x"
  shows "find_one p (fst (update_one p f xs)) = map_option f (find_one p xs)"
proof (induction xs)
  case Nil
  then show ?case by (simp add: find_one_def)
next
  case (Cons x xs)
  show ?case
  proof (cases "p x")
    case True
    then show ?thesis using assms[of x] by (simp add: find_one_def)
  next
    case False
    obtain ys m k where u: "update_one p f xs = (ys, m, k)"
      by (cases "update_one p f xs") auto
    with False Cons show ?thesis by (simp add: find_one_def)
  qed
qed

lemma push_participant_changes: "push_participant email a \<noteq> a"
proof
  assume "push_participant email a = a"
  then have "participants (push_participant email a) = participants a" by simp
  then show False by (simp add: push_participant_def)
qed

lemma pull_participant_changes:
  assumes "email \<in> set (participants a)"
  shows "pull_participant email a \<noteq> a"
proof
  assume "pull_participant email a = a"
  then have "participants (pull_participant email a) = participants a" by simp
  then have "filter (\<lambda>p. p \<noteq> email) (participants a) = participants a"
    by (simp add: pull_participant_def)
  then have "\<forall>p\<in>set (participants a). p \<noteq> email"
    by (simp add: filter_id_conv)
  with assms show False by blast
qed

subsection \<open>Signup and unregister, check by check\<close>

lemma update_one_first_distinct:
  assumes "\<forall>a\<in>set xs. distinct (participants a)"
    and "\<And>a. find_one p xs = Some a \<Longrightarrow> distinct (participants (f a))"
  shows "\<forall>a\<in>set (fst (update_one p f xs)). distinct (participants a)"
  using assms
proof (induction xs)
  case Nil
  then show ?case by simp
next
  case (Cons x xs)
  obtain ys m k where u: "update_one p f xs = (ys, m, k)"
    by (cases "update_one p f xs") auto
  show ?case
  proof (cases "p x")
    case True
    then have "find_one p (x # xs) = Some x" by (simp add: find_one_def)
    then have "distinct (participants (f x))"
      by (rule Cons.prems(2))
    with True Cons.prems(1) show ?thesis by simp
  next
    case False
    have "distinct (participants (f a))" if "find_one p xs = Some a" for a
    proof (rule Cons.prems(2))
      show "find_one p (x # xs) = Some a" using that False by (simp add: find_one_def)
    qed
    moreover have "\<forall>a\<in>set xs. distinct (participants a)" using Cons.prems(1) by simp
    ultimately have "\<forall>a\<in>set (fst (update_one p f xs)). distinct (participants a)"
      by (rule Cons.IH[rotated])
    with False u Cons.prems(1) show ?thesis by simp
  qed
qed

text \<open>Past the checks, the update matches one document and modifies it.\<close>

lemma push_result:
  assumes "find_one p xs = Some a"
  shows "update_one p (push_participant e) xs =
         (fst (update_one p (push_participant e) xs), 1, 1)"
  using update_one_matched[OF assms, of "push_participant e"] push_participant_changes[of e a]
  by (cases "update_one p (push_participant e) xs") simp

lemma pull_result:
  assumes "find_one p xs = Some a" and "e \<in> set (participants a)"
  shows "update_one p (pull_participant e) xs =
         (fst (update_one p (pull_participant e) xs), 1, 1)"
  using update_one_matched[OF assms(1), of "pull_participant e"]
    pull_participant_changes[OF assms(2)]
  by (cases "update_one p (pull_participant e) xs") simp

lemma signup_for_activity_unfold:
  "signup_for_activity st activity_name email teacher_username =
     (if teacher_username = None \<or> teacher_username = Some [] then
        (Inl (HTTPException 401 ''Authentication required for this action''), st)
      else if the teacher_username \<notin> set (teachers st) then
        (Inl (HTTPException 401 ''Invalid teacher credentials''), st)
      else case find_one (\<lambda>a. act_id a = activity_name) (activities st) of
        None \<Rightarrow> (Inl (HTTPException 404 ''Activity not found''), st)
      | Some a \<Rightarrow>
          if email \<in> set (participants a) then
            (Inl (HTTPException 400 ''Already signed up for this activity''), st)
          else
            (Inr (''Signed up '' @ email @ '' for '' @ activity_name),
             st\<lparr>activities := fst (update_one (\<lambda>a. act_id a = activity_name)
                                     (push_participant email) (activities st))\<rparr>))"
proof (cases teacher_username)
  case None
  then show ?thesis by (simp add: signup_for_activity_def)
next
  case (Some u)
  note u = this
  show ?thesis
  proof (cases "u = [] \<or> u \<notin> set (teachers st)")
    case True
    then show ?thesis using u find_one_member[of u "teachers st"]
      by (auto simp: signup_for_activity_def split: option.splits)
  next
    case False
    then obtain t where t: "find_one (\<lambda>t. t = u) (teachers st) = Some t"
      using find_one_member[of u "teachers st"] by auto
    show ?thesis
    proof (cases "find_one (\<lambda>a. act_id a = activity_name) (activities st)")
      case None
      with False u t show ?thesis by (simp add: signup_for_activity_def)
    next
      case (Some a)
      note a = this
      show ?thesis
      proof (cases "email \<in> set (participants a)")
        case True
        with False u t a show ?thesis
          by (simp add: signup_for_activity_def)
      next
        case notin: False
        from push_result[OF a, of email]
        obtain docs where
          "update_one (\<lambda>a. act_id a = activity_name) (push_participant email) (activities st)
           = (docs, 1, 1)"
          by blast
        with False u t a notin show ?thesis
          by (simp add: signup_for_activity_def)
      qed
    qed
  qed
qed

lemma unregister_from_activity_unfold:
  "unregister_from_activity st activity_name email teacher_username =
     (if teacher_username = None \<or> teacher_username = Some [] then
        (Inl (HTTPException 401 ''Authentication required for this action''), st)
      else if the teacher_username \<notin> set (teachers st) then
        (Inl (HTTPException 401 ''Invalid teacher credentials''), st)
      else case find_one (\<lambda>a. act_id a = activity_name) (activities st) of
        None \<Rightarrow> (Inl (HTTPException 404 ''Activity not found''), st)
      | Some a \<Rightarrow>
          if email \<notin> set (participants a) then
            (Inl (HTTPException 400 ''Not registered for this activity''), st)
          else
            (Inr (''Unregistered '' @ email @ '' from '' @ activity_name),
             st\<lparr>activities := fst (update_one (\<lambda>a. act_id a = activity_name)
                                     (pull_participant email) (activities st))\<rparr>))"
proof (cases teacher_username)
  case None
  then show ?thesis by (simp add: unregister_from_activity_def)
next
  case (Some u)
  note u = this
  show ?thesis
  proof (cases "u = [] \<or> u \<notin> set (teachers st)")
    case True
    then show ?thesis using u find_one_member[of u "teachers st"]
      by (auto simp: unregister_from_activity_def split: option.splits)
  next
    case False
    then obtain t where t: "find_one (\<lambda>t. t = u) (teachers st) = Some t"
      using find_one_member[of u "teachers st"] by auto
    show ?thesis
    proof (cases "find_one (\<lambda>a. act_id a = activity_name) (activities st)")
      case None
      with False u t show ?thesis by (simp add: unregister_from_activity_def)
    next
      case (Some a)
      note a = this
      show ?thesis
      proof (cases "email \<in> set (participants a)")
        case False
        with \<open>\<not> (u = [] \<or> u \<notin> set (teachers st))\<close> u t a show ?thesis
          by (simp add: unregister_from_activity_def)
      next
        case True
        from pull_result[OF a True]
        obtain docs where
          "update_one (\<lambda>a. act_id a = activity_name) (pull_participant email) (activities st)
           = (docs, 1, 1)"
          by blast
        with \<open>\<not> (u = [] \<or> u \<notin> set (teachers st))\<close> u t a True show ?thesis
          by (simp add: unregister_from_activity_def)
      qed
    qed
  qed
qed

lemma push_participant_fun:
  "push_participant email = (\<lambda>a. a\<lparr>participants := participants a @ [email]\<rparr>)"
  by (rule ext) (simp add: push_participant_def)

lemma find_after_push:
  "find_one (\<lambda>a. act_id a = n) (fst (update_one (\<lambda>a. act_id a = n) (push_participant e) xs))
   = map_option (push_participant e) (find_one (\<lambda>a. act_id a = n) xs)"
  by (rule update_one_find) (simp add: push_participant_def)

text \<open>
  C1. The checks of \<^verbatim>\<open>signup_for_activity\<close> in their order: 401 when
  \<^verbatim>\<open>teacher_username\<close> is missing or empty, 401 when no teacher record has that
  identity, then 404 when no activity has the name, then 400 when the email is
  already a participant; otherwise the handler succeeds and the store's activities are
  those the \<^verbatim>\<open>$push\<close> leaves. The second equation says what the push leaves: the
  activity found by the name is the former one with the email appended at the end of its
  participants. The answer is 500 only when the update reports a zero
  \<^verbatim>\<open>modified_count\<close>; the update that runs past the checks modifies the document, so
  on this store the 500 does not arise.
\<close>

theorem signup_for_activity_precedence:
  "signup_for_activity st activity_name email teacher_username =
     (if teacher_username = None \<or> teacher_username = Some [] then
        (Inl (HTTPException 401 ''Authentication required for this action''), st)
      else if the teacher_username \<notin> set (teachers st) then
        (Inl (HTTPException 401 ''Invalid teacher credentials''), st)
      else case find_one (\<lambda>a. act_id a = activity_name) (activities st) of
        None \<Rightarrow> (Inl (HTTPException 404 ''Activity not found''), st)
      | Some a \<Rightarrow>
          if email \<in> set (participants a) then
            (Inl (HTTPException 400 ''Already signed up for this activity''), st)
          else
            (Inr (''Signed up '' @ email @ '' for '' @ activity_name),
             st\<lparr>activities := fst (update_one (\<lambda>a. act_id a = activity_name)
                                     (push_participant email) (activities st))\<rparr>))
   \<and> find_one (\<lambda>a. act_id a = activity_name)
        (fst (update_one (\<lambda>a. act_id a = activity_name) (push_participant email) (activities st)))
     = map_option (\<lambda>a. a\<lparr>participants := participants a @ [email]\<rparr>)
         (find_one (\<lambda>a. act_id a = activity_name) (activities st))
   \<and> (response_status (fst (signup_for_activity st activity_name email teacher_username)) = 500
        \<longrightarrow>
      snd (snd (update_one (\<lambda>a. act_id a = activity_name) (push_participant email)
                  (activities st))) = 0)"
proof -
  have "response_status (fst (signup_for_activity st activity_name email teacher_username)) \<noteq> 500"
    by (simp add: signup_for_activity_unfold response_status_def split: option.splits)
  moreover have "find_one (\<lambda>a. act_id a = activity_name)
        (fst (update_one (\<lambda>a. act_id a = activity_name) (push_participant email) (activities st)))
     = map_option (\<lambda>a. a\<lparr>participants := participants a @ [email]\<rparr>)
         (find_one (\<lambda>a. act_id a = activity_name) (activities st))"
    using find_after_push[of activity_name email "activities st"]
    by (simp only: push_participant_fun)
  ultimately show ?thesis
    using signup_for_activity_unfold[of st activity_name email teacher_username]
    by blast
qed

text \<open>The five outcomes on the example school.\<close>

theorem signup_for_activity_precedence_witness:
  "signup_for_activity school ''Chess Club'' ''emma@mergington.edu'' (Some ''mrodriguez'') =
     (Inr ''Signed up emma@mergington.edu for Chess Club'',
      school\<lparr>activities :=
        [chess_club\<lparr>participants := [''michael@mergington.edu'', ''emma@mergington.edu'']\<rparr>,
         art_club, study_hall]\<rparr>)
   \<and> signup_for_activity school ''Chess Club'' ''michael@mergington.edu'' (Some ''mrodriguez'') =
     (Inl (HTTPException 400 ''Already signed up for this activity''), school)
   \<and> signup_for_activity school ''Debate'' ''emma@mergington.edu'' (Some ''mrodriguez'') =
     (Inl (HTTPException 404 ''Activity not found''), school)
   \<and> signup_for_activity school ''Debate'' ''emma@mergington.edu'' (Some ''nobody'') =
     (Inl (HTTPException 401 ''Invalid teacher credentials''), school)
   \<and> signup_for_activity school ''Debate'' ''emma@mergington.edu'' None =
     (Inl (HTTPException 401 ''Authentication required for this action''), school)"
  using signup_for_activity_precedence[of school "''Chess Club''" "''emma@mergington.edu''" "Some ''mrodriguez''"]
    signup_for_activity_precedence[of school "''Chess Club''" "''michael@mergington.edu''" "Some ''mrodriguez''"]
    signup_for_activity_precedence[of school "''Debate''" "''emma@mergington.edu''" "Some ''mrodriguez''"]
    signup_for_activity_precedence[of school "''Debate''" "''emma@mergington.edu''" "Some ''nobody''"]
    signup_for_activity_precedence[of school "''Debate''" "''emma@mergington.edu''" None]
  by (simp add: school_def chess_club_def art_club_def study_hall_def find_one_def push_participant_def)

text \<open>
  C1, read with \<^verbatim>\<open>teacher_username\<close> merely absent or unknown as the causes of 401.
  An empty \<^verbatim>\<open>teacher_username\<close> is present, and here a teacher record has that
  identity, the activity exists and the email is new; the handler still answers 401.
\<close>

theorem signup_for_activity_blank_teacher_counterexample:
  "Some [] \<noteq> (None :: string option)
   \<and> the (Some []) \<in> set (teachers school_blank_teacher)
   \<and> find_one (\<lambda>a. act_id a = ''Chess Club'') (activities school_blank_teacher) = Some chess_club
   \<and> ''emma@mergington.edu'' \<notin> set (participants chess_club)
   \<and> signup_for_activity school_blank_teacher ''Chess Club'' ''emma@mergington.edu'' (Some []) =
       (Inl (HTTPException 401 ''Authentication required for this action''), school_blank_teacher)"
  by (simp add: signup_for_activity_def school_blank_teacher_def school_def chess_club_def
      art_club_def study_hall_def find_one_def)

lemma signup_keeps_distinct:
  assumes "no_duplicate_participants st"
  shows "no_duplicate_participants (snd (signup_for_activity st n e tu))"
proof -
  have "\<forall>a\<in>set (fst (update_one (\<lambda>a. act_id a = n) (push_participant e) (activities st))).
          distinct (participants a)"
    if "find_one (\<lambda>a. act_id a = n) (activities st) = Some b" "e \<notin> set (participants b)" for b
  proof (rule update_one_first_distinct)
    show "\<forall>a\<in>set (activities st). distinct (participants a)"
      using assms by (simp add: no_duplicate_participants_def)
  next
    fix a assume "find_one (\<lambda>a. act_id a = n) (activities st) = Some a"
    with that have "a = b" by simp
    moreover have "distinct (participants b)"
      using assms find_one_Some_holds[OF that(1)] by (simp add: no_duplicate_participants_def)
    ultimately show "distinct (participants (push_participant e a))"
      using that(2) by (simp add: push_participant_def)
  qed
  then show ?thesis
    using assms
    by (simp add: signup_for_activity_unfold no_duplicate_participants_def split: option.splits)
qed

lemma unregister_keeps_distinct:
  assumes "no_duplicate_participants st"
  shows "no_duplicate_participants (snd (unregister_from_activity st n e tu))"
proof -
  have "\<forall>a\<in>set (fst (update_one (\<lambda>a. act_id a = n) (pull_participant e) (activities st))).
          distinct (participants a)"
    if "find_one (\<lambda>a. act_id a = n) (activities st) = Some b" for b
  proof (rule update_one_first_distinct)
    show "\<forall>a\<in>set (activities st). distinct (participants a)"
      using assms by (simp add: no_duplicate_participants_def)
  next
    fix a assume "find_one (\<lambda>a. act_id a = n) (activities st) = Some a"
    with that have "a = b" by simp
    moreover have "distinct (participants b)"
      using assms find_one_Some_holds[OF that] by (simp add: no_duplicate_participants_def)
    ultimately show "distinct (participants (pull_participant e a))"
      by (simp add: pull_participant_def)
  qed
  then show ?thesis
    using assms
    by (simp add: unregister_from_activity_unfold no_duplicate_participants_def split: option.splits)
qed

lemma signup_twice:
  assumes "signup_for_activity st n e tu = (Inr m, st')"
  shows "signup_for_activity st' n e tu =
         (Inl (HTTPException 400 ''Already signed up for this activity''), st')"
proof -
  from assms obtain a where
    tu: "\<not> (tu = None \<or> tu = Some [])" "the tu \<in> set (teachers st)"
    and a: "find_one (\<lambda>a. act_id a = n) (activities st) = Some a"
    and st': "st' = st\<lparr>activities := fst (update_one (\<lambda>a. act_id a = n)
                                     (push_participant e) (activities st))\<rparr>"
    by (auto simp: signup_for_activity_unfold split: if_splits option.splits)
  have "find_one (\<lambda>a. act_id a = n) (activities st') = Some (push_participant e a)"
    using a st' find_after_push[of n e "activities st"] by simp
  moreover have "e \<in> set (participants (push_participant e a))"
    by (simp add: push_participant_def)
  moreover have "teachers st' = teachers st"
    using st' by simp
  ultimately show ?thesis
    using tu by (simp add: signup_for_activity_unfold)
qed

text \<open>
  C3. When no participants list of the store holds an email twice, none does after a
  call of \<^verbatim>\<open>signup_for_activity\<close> or of \<^verbatim>\<open>unregister_from_activity\<close>, whatever the
  call answers. And a signup that succeeded, repeated with the same arguments on the
  store it left, answers 400 and leaves that store as it is.
\<close>

theorem participants_never_duplicated:
  assumes "no_duplicate_participants st"
  shows "no_duplicate_participants (snd (signup_for_activity st n e tu))
       \<and> no_duplicate_participants (snd (unregister_from_activity st n e tu))
       \<and> (\<forall>m st'. signup_for_activity st n e tu = (Inr m, st') \<longrightarrow>
            signup_for_activity st' n e tu =
              (Inl (HTTPException 400 ''Already signed up for this activity''), st'))"
  using signup_keeps_distinct[OF assms] unregister_keeps_distinct[OF assms] signup_twice
  by blast

lemma school_no_duplicates: "no_duplicate_participants school"
  by (simp add: no_duplicate_participants_def school_def chess_club_def art_club_def
      study_hall_def)

text \<open>On the example school: a signup, and the same signup again.\<close>

theorem participants_never_duplicated_witness:
  "no_duplicate_participants school
   \<and> no_duplicate_participants
       (snd (signup_for_activity school ''Chess Club'' ''emma@mergington.edu'' (Some ''mrodriguez'')))
   \<and> fst (signup_for_activity school ''Chess Club'' ''emma@mergington.edu'' (Some ''mrodriguez''))
       = Inr ''Signed up emma@mergington.edu for Chess Club''
   \<and> signup_for_activity
       (snd (signup_for_activity school ''Chess Club'' ''emma@mergington.edu'' (Some ''mrodriguez'')))
       ''Chess Club'' ''emma@mergington.edu'' (Some ''mrodriguez'')
     = (Inl (HTTPException 400 ''Already signed up for this activity''),
        snd (signup_for_activity school ''Chess Club'' ''emma@mergington.edu'' (Some ''mrodriguez'')))"
proof -
  have r: "signup_for_activity school ''Chess Club'' ''emma@mergington.edu'' (Some ''mrodriguez'')
        = (Inr ''Signed up emma@mergington.edu for Chess Club'',
           snd (signup_for_activity school ''Chess Club'' ''emma@mergington.edu'' (Some ''mrodriguez'')))"
    by (simp add: signup_for_activity_def school_def chess_club_def art_club_def study_hall_def
        find_one_def push_participant_def)
  from participants_never_duplicated[OF school_no_duplicates,
      of "''Chess Club''" "''emma@mergington.edu''" "Some ''mrodriguez''"] r
  show ?thesis
    using school_no_duplicates by (metis fst_conv)
qed

subsection \<open>Announcements\<close>

lemma is_authenticated_iff: "is_authenticated st username \<longleftrightarrow> username \<in> set (teachers st)"
  using find_one_member[of username "teachers st"] by (simp add: is_authenticated_def)

lemma strptime_empty: "strptime [] = None"
  by (simp add: strptime_def)

lemma strptime_2099: "strptime ''2099-01-01'' = Some (2099, 1, 1)"
  by (simp add: strptime_def is_digit_def in_range_def digit_val_def match_month_def
      match_day_def days_in_month_def is_leap_def)


lemma school_authenticated: "is_authenticated school ''mrodriguez''"
  by (simp add: is_authenticated_iff school_def)

lemma set_update_doc_keeps_id: "ann_id (set_update_doc m e s a) = ann_id a"
  by (simp add: set_update_doc_def Let_def)

lemma update_one_others:
  assumes "\<And>x. p (f x) = p x"
  shows "filter (\<lambda>x. \<not> p x) (fst (update_one p f xs)) = filter (\<lambda>x. \<not> p x) xs"
proof (induction xs)
  case Nil
  then show ?case by simp
next
  case (Cons x xs)
  obtain ys m k where u: "update_one p f xs = (ys, m, k)"
    by (cases "update_one p f xs") auto
  show ?case
  proof (cases "p x")
    case True
    then show ?thesis using assms[of x] by simp
  next
    case False
    with u Cons show ?thesis by simp
  qed
qed

text \<open>The update past both checks, by whether a document has the identity.\<close>

lemma update_announcement_found:
  assumes "is_authenticated st username"
    and "\<not> dates_raise expiration_date start_date"
    and "find_one (\<lambda>a. ann_id a = announcement_id) (announcements st) = Some a"
  shows "update_announcement st announcement_id username message expiration_date start_date =
           (Inr (set_update_doc message expiration_date start_date a),
            st\<lparr>announcements := fst (update_one (\<lambda>a. ann_id a = announcement_id)
                (set_update_doc message expiration_date start_date) (announcements st))\<rparr>)"
proof -
  let ?p = "\<lambda>a. ann_id a = announcement_id"
  let ?f = "set_update_doc message expiration_date start_date"
  obtain docs m k where u: "update_one ?p ?f (announcements st) = (docs, m, k)"
    by (cases "update_one ?p ?f (announcements st)") auto
  have m: "m = 1"
    using update_one_matched[OF assms(3), of ?f] u by simp
  have "find_one ?p (fst (update_one ?p ?f (announcements st))) = map_option ?f (Some a)"
    using update_one_find[of ?p ?f "announcements st"] assms(3)
    by (simp add: set_update_doc_keeps_id)
  then have "find_one ?p docs = Some (?f a)"
    using u by simp
  with assms(1,2) u m show ?thesis
    by (simp add: update_announcement_def)
qed

lemma update_announcement_missing:
  assumes "is_authenticated st username"
    and "\<not> dates_raise expiration_date start_date"
    and "find_one (\<lambda>a. ann_id a = announcement_id) (announcements st) = None"
  shows "update_announcement st announcement_id username message expiration_date start_date =
           (Inl (HTTPException 404 ''Announcement not found''), st)"
  using assms update_one_unmatched[OF assms(3)]
  by (simp add: update_announcement_def)

text \<open>
  C2. \<^verbatim>\<open>create_announcement\<close> rejects an empty message with 400;
  \<^verbatim>\<open>update_announcement\<close> has no such test and stores the empty message over the
  announcement's text. An empty expiration date it does reject, because the date parser
  raises on it.
\<close>

theorem update_announcement_accepts_empty_message:
  "create_announcement school ''a2'' ''mrodriguez'' [] ''2099-01-01'' None =
     (Inl (HTTPException 400 ''Message and expiration date required''), school)
   \<and> update_announcement school ''a1'' ''mrodriguez'' [] ''2099-01-01'' None =
     (Inr (welcome_back\<lparr>ann_message := []\<rparr>),
      school\<lparr>announcements := [welcome_back\<lparr>ann_message := []\<rparr>]\<rparr>)
   \<and> update_announcement school ''a1'' ''mrodriguez'' ''Hello'' [] None =
     (Inl (HTTPException 400 ''Invalid date format (YYYY-MM-DD)''), school)"
proof -
  have "create_announcement school ''a2'' ''mrodriguez'' [] ''2099-01-01'' None =
     (Inl (HTTPException 400 ''Message and expiration date required''), school)"
    using school_authenticated by (simp add: create_announcement_def)
  moreover have "update_announcement school ''a1'' ''mrodriguez'' [] ''2099-01-01'' None =
     (Inr (welcome_back\<lparr>ann_message := []\<rparr>),
      school\<lparr>announcements := [welcome_back\<lparr>ann_message := []\<rparr>]\<rparr>)"
    using school_authenticated strptime_2099
    by (simp add: update_announcement_def dates_raise_def school_def welcome_back_def
        set_update_doc_def find_one_def)
  moreover have "update_announcement school ''a1'' ''mrodriguez'' ''Hello'' [] None =
     (Inl (HTTPException 400 ''Invalid date format (YYYY-MM-DD)''), school)"
    using school_authenticated strptime_empty
    by (simp add: update_announcement_def dates_raise_def)
  ultimately show ?thesis by simp
qed

lemma signup_error_store:
  "response_status (fst (signup_for_activity st activity_name email teacher_username))
       \<in> {400, 401, 404} \<Longrightarrow>
   snd (signup_for_activity st activity_name email teacher_username) = st"
  by (auto simp: signup_for_activity_unfold response_status_def split: if_splits option.splits)

lemma unregister_error_store:
  "response_status (fst (unregister_from_activity st activity_name email teacher_username))
       \<in> {400, 401, 404} \<Longrightarrow>
   snd (unregister_from_activity st activity_name email teacher_username) = st"
  by (auto simp: unregister_from_activity_unfold response_status_def
      split: if_splits option.splits)

lemma create_error_store:
  "response_status (fst (create_announcement st new_id username message expiration_date start_date))
       \<in> {400, 401, 404} \<Longrightarrow>
   snd (create_announcement st new_id username message expiration_date start_date) = st"
  by (auto simp: create_announcement_def response_status_def Let_def split: if_splits)

lemma update_error_store:
  assumes "response_status
        (fst (update_announcement st announcement_id username message expiration_date start_date))
       \<in> {400, 401, 404}"
  shows "snd (update_announcement st announcement_id username message expiration_date start_date) = st"
proof (cases "is_authenticated st username \<and> \<not> dates_raise expiration_date start_date")
  case False
  then show ?thesis by (auto simp: update_announcement_def)
next
  case True
  show ?thesis
  proof (cases "find_one (\<lambda>a. ann_id a = announcement_id) (announcements st)")
    case None
    with True show ?thesis by (simp add: update_announcement_missing)
  next
    case (Some a)
    with True assms show ?thesis
      by (simp add: update_announcement_found response_status_def)
  qed
qed

lemma delete_error_store:
  assumes "response_status (fst (delete_announcement st announcement_id username))
       \<in> {400, 401, 404}"
  shows "snd (delete_announcement st announcement_id username) = st"
proof -
  obtain docs k where d: "delete_one (\<lambda>a. ann_id a = announcement_id) (announcements st) = (docs, k)"
    by (cases "delete_one (\<lambda>a. ann_id a = announcement_id) (announcements st)") auto
  show ?thesis
  proof (cases "is_authenticated st username")
    case False
    then show ?thesis by (simp add: delete_announcement_def)
  next
    case True
    show ?thesis
    proof (cases "k = 0")
      case True
      with d have "docs = announcements st" by (simp add: delete_one_zero)
      with d \<open>k = 0\<close> \<open>is_authenticated st username\<close> show ?thesis
        by (simp add: delete_announcement_def)
    next
      case False
      with d assms \<open>is_authenticated st username\<close> show ?thesis
        by (simp add: delete_announcement_def response_status_def)
    qed
  qed
qed

text \<open>What a handler leaves is the store it received or that store after one operation
  on one collection.\<close>

lemma signup_one_mutation:
  "snd (signup_for_activity st activity_name email teacher_username) = st
   \<or> snd (signup_for_activity st activity_name email teacher_username) =
       st\<lparr>activities := fst (update_one (\<lambda>a. act_id a = activity_name)
                               (push_participant email) (activities st))\<rparr>"
  by (simp add: signup_for_activity_unfold split: option.splits)

lemma unregister_one_mutation:
  "snd (unregister_from_activity st activity_name email teacher_username) = st
   \<or> snd (unregister_from_activity st activity_name email teacher_username) =
       st\<lparr>activities := fst (update_one (\<lambda>a. act_id a = activity_name)
                               (pull_participant email) (activities st))\<rparr>"
  by (simp add: unregister_from_activity_unfold split: option.splits)

lemma create_one_mutation:
  "snd (create_announcement st new_id username message expiration_date start_date) = st
   \<or> (\<exists>doc. snd (create_announcement st new_id username message expiration_date start_date) =
         st\<lparr>announcements := announcements st @ [doc]\<rparr>)"
proof (cases "fst (create_announcement st new_id username message expiration_date start_date)")
  case (Inl e)
  then show ?thesis
    by (auto simp: create_announcement_def Let_def split: if_splits)
next
  case (Inr doc)
  then have "snd (create_announcement st new_id username message expiration_date start_date) =
         st\<lparr>announcements := announcements st @ [doc]\<rparr>"
    by (auto simp: create_announcement_def Let_def split: if_splits)
  then show ?thesis by blast
qed

lemma update_one_mutation:
  "snd (update_announcement st announcement_id username message expiration_date start_date) = st
   \<or> snd (update_announcement st announcement_id username message expiration_date start_date) =
       st\<lparr>announcements := fst (update_one (\<lambda>a. ann_id a = announcement_id)
           (set_update_doc message expiration_date start_date) (announcements st))\<rparr>"
proof -
  obtain docs m k where
    "update_one (\<lambda>a. ann_id a = announcement_id)
       (set_update_doc message expiration_date start_date) (announcements st) = (docs, m, k)"
    by (cases "update_one (\<lambda>a. ann_id a = announcement_id)
       (set_update_doc message expiration_date start_date) (announcements st)") auto
  then show ?thesis
    by (simp add: update_announcement_def split: option.splits)
qed

lemma delete_one_mutation:
  "snd (delete_announcement st announcement_id username) = st
   \<or> snd (delete_announcement st announcement_id username) =
       st\<lparr>announcements := fst (delete_one (\<lambda>a. ann_id a = announcement_id) (announcements st))\<rparr>"
proof -
  obtain docs k where
    "delete_one (\<lambda>a. ann_id a = announcement_id) (announcements st) = (docs, k)"
    by (cases "delete_one (\<lambda>a. ann_id a = announcement_id) (announcements st)") auto
  then show ?thesis
    by (simp add: delete_announcement_def)
qed

text \<open>
  C4. A handler that answers 400, 401 or 404 leaves the whole store as it was, and
  whatever it answers, the store it leaves is the one it received or that one after a
  single operation on a single collection: one \<^verbatim>\<open>update_one\<close>, one
  \<^verbatim>\<open>insert_one\<close> or one \<^verbatim>\<open>delete_one\<close>. The three reading handlers return no
  store at all.
\<close>

theorem errors_leave_store:
  "(response_status (fst (signup_for_activity st activity_name email teacher_username))
       \<in> {400, 401, 404} \<longrightarrow>
     snd (signup_for_activity st activity_name email teacher_username) = st)
   \<and> (response_status (fst (unregister_from_activity st activity_name email teacher_username))
       \<in> {400, 401, 404} \<longrightarrow>
     snd (unregister_from_activity st activity_name email teacher_username) = st)
   \<and> (response_status (fst (create_announcement st new_id username message expiration_date start_date))
       \<in> {400, 401, 404} \<longrightarrow>
     snd (create_announcement st new_id username message expiration_date start_date) = st)
   \<and> (response_status
        (fst (update_announcement st announcement_id username message expiration_date start_date))
       \<in> {400, 401, 404} \<longrightarrow>
     snd (update_announcement st announcement_id username message expiration_date start_date) = st)
   \<and> (response_status (fst (delete_announcement st announcement_id username)) \<in> {400, 401, 404} \<longrightarrow>
     snd (delete_announcement st announcement_id username) = st)
   \<and> (snd (signup_for_activity st activity_name email teacher_username) = st
      \<or> snd (signup_for_activity st activity_name email teacher_username) =
          st\<lparr>activities := fst (update_one (\<lambda>a. act_id a = activity_name)
                                  (push_participant email) (activities st))\<rparr>)
   \<and> (snd (unregister_from_activity st activity_name email teacher_username) = st
      \<or> snd (unregister_from_activity st activity_name email teacher_username) =
          st\<lparr>activities := fst (update_one (\<lambda>a. act_id a = activity_name)
                                  (pull_participant email) (activities st))\<rparr>)
   \<and> (snd (create_announcement st new_id username message expiration_date start_date) = st
      \<or> (\<exists>doc. snd (create_announcement st new_id username message expiration_date start_date) =
            st\<lparr>announcements := announcements st @ [doc]\<rparr>))
   \<and> (snd (update_announcement st announcement_id username message expiration_date start_date) = st
      \<or> snd (update_announcement st announcement_id username message expiration_date start_date) =
          st\<lparr>announcements := fst (update_one (\<lambda>a. ann_id a = announcement_id)
              (set_update_doc message expiration_date start_date) (announcements st))\<rparr>)
   \<and> (snd (delete_announcement st announcement_id username) = st
      \<or> snd (delete_announcement st announcement_id username) =
          st\<lparr>announcements :=
               fst (delete_one (\<lambda>a. ann_id a = announcement_id) (announcements st))\<rparr>)"
  using signup_error_store[of st activity_name email teacher_username]
    unregister_error_store[of st activity_name email teacher_username]
    create_error_store[of st new_id username message expiration_date start_date]
    update_error_store[of st announcement_id username message expiration_date start_date]
    delete_error_store[of st announcement_id username]
    signup_one_mutation[of st activity_name email teacher_username]
    unregister_one_mutation[of st activity_name email teacher_username]
    create_one_mutation[of st new_id username message expiration_date start_date]
    update_one_mutation[of st announcement_id username message expiration_date start_date]
    delete_one_mutation[of st announcement_id username]
  by (intro conjI impI) assumption+

text \<open>One failing call of each handler on the example school.\<close>

theorem errors_leave_store_witness:
  "response_status (fst (signup_for_activity school ''Chess Club'' ''michael@mergington.edu''
       (Some ''mrodriguez''))) = 400
   \<and> snd (signup_for_activity school ''Chess Club'' ''michael@mergington.edu''
       (Some ''mrodriguez'')) = school
   \<and> response_status (fst (unregister_from_activity school ''Debate'' ''emma@mergington.edu''
       (Some ''mrodriguez''))) = 404
   \<and> snd (unregister_from_activity school ''Debate'' ''emma@mergington.edu''
       (Some ''mrodriguez'')) = school
   \<and> response_status (fst (create_announcement school ''a2'' ''nobody'' ''Hello'' ''2099-01-01'' None))
       = 401
   \<and> snd (create_announcement school ''a2'' ''nobody'' ''Hello'' ''2099-01-01'' None) = school
   \<and> response_status (fst (update_announcement school ''a9'' ''mrodriguez'' ''Hello'' ''2099-01-01'' None))
       = 404
   \<and> snd (update_announcement school ''a9'' ''mrodriguez'' ''Hello'' ''2099-01-01'' None) = school
   \<and> response_status (fst (delete_announcement school ''a9'' ''mrodriguez'')) = 404
   \<and> snd (delete_announcement school ''a9'' ''mrodriguez'') = school"
proof -
  have s1: "response_status (fst (signup_for_activity school ''Chess Club'' ''michael@mergington.edu''
       (Some ''mrodriguez''))) = 400"
    by (simp add: signup_for_activity_def response_status_def school_def chess_club_def
        find_one_def)
  have s2: "response_status (fst (unregister_from_activity school ''Debate'' ''emma@mergington.edu''
       (Some ''mrodriguez''))) = 404"
    by (simp add: unregister_from_activity_def response_status_def school_def chess_club_def
        art_club_def study_hall_def find_one_def)
  have s3: "response_status (fst (create_announcement school ''a2'' ''nobody'' ''Hello'' ''2099-01-01'' None))
       = 401"
    by (simp add: create_announcement_def response_status_def is_authenticated_iff school_def)
  have s4: "response_status (fst (update_announcement school ''a9'' ''mrodriguez'' ''Hello'' ''2099-01-01'' None))
       = 404"
    using school_authenticated strptime_2099
    by (simp add: update_announcement_def dates_raise_def response_status_def school_def
        welcome_back_def find_one_def)
  have s5: "response_status (fst (delete_announcement school ''a9'' ''mrodriguez'')) = 404"
    using school_authenticated
    by (simp add: delete_announcement_def response_status_def school_def welcome_back_def)
  from errors_leave_store[of school "''Chess Club''" "''michael@mergington.edu''"
      "Some ''mrodriguez''" "''a2''" "''nobody''" "''Hello''" "''2099-01-01''" None "''a9''"]
  have "snd (signup_for_activity school ''Chess Club'' ''michael@mergington.edu''
       (Some ''mrodriguez'')) = school"
    and "snd (create_announcement school ''a2'' ''nobody'' ''Hello'' ''2099-01-01'' None) = school"
    using s1 s3 by simp_all
  moreover from errors_leave_store[of school "''Debate''" "''emma@mergington.edu''"
      "Some ''mrodriguez''" "''a2''" "''mrodriguez''" "''Hello''" "''2099-01-01''" None "''a9''"]
  have "snd (unregister_from_activity school ''Debate'' ''emma@mergington.edu''
       (Some ''mrodriguez'')) = school"
    and "snd (update_announcement school ''a9'' ''mrodriguez'' ''Hello'' ''2099-01-01'' None) = school"
    and "snd (delete_announcement school ''a9'' ''mrodriguez'') = school"
    using s2 s4 s5 by simp_all
  ultimately show ?thesis
    using s1 s2 s3 s4 s5 by simp
qed

text \<open>
  C9. A successful \<^verbatim>\<open>update_announcement\<close> without \<^verbatim>\<open>start_date\<close> returns and
  stores the announcement that had the identity with its message and expiration date
  replaced by the ones supplied: its start date, its identity and its other fields are
  the former ones. The announcements of other identities, the activities and the teachers
  are as before.
\<close>

theorem update_announcement_without_start_date:
  assumes "update_announcement st announcement_id username message expiration_date None =
             (Inr doc, st')"
  shows "\<exists>a. find_one (\<lambda>a. ann_id a = announcement_id) (announcements st) = Some a
           \<and> doc = a\<lparr>ann_message := message, ann_expiration_date := expiration_date\<rparr>
           \<and> ann_start_date doc = ann_start_date a
           \<and> ann_id doc = ann_id a \<and> ann_other doc = ann_other a
           \<and> find_one (\<lambda>a. ann_id a = announcement_id) (announcements st') = Some doc
           \<and> filter (\<lambda>b. ann_id b \<noteq> announcement_id) (announcements st') =
               filter (\<lambda>b. ann_id b \<noteq> announcement_id) (announcements st)
           \<and> activities st' = activities st \<and> teachers st' = teachers st"
proof -
  let ?p = "\<lambda>a. ann_id a = announcement_id"
  let ?f = "set_update_doc message expiration_date None"
  have auth: "is_authenticated st username" and dates: "\<not> dates_raise expiration_date None"
    using assms by (auto simp: update_announcement_def split: if_splits)
  obtain a where a: "find_one ?p (announcements st) = Some a"
    using assms update_announcement_missing[OF auth dates, of announcement_id message]
    by (cases "find_one ?p (announcements st)") auto
  from update_announcement_found[OF auth dates a, of message] assms
  have doc: "doc = ?f a"
    and st': "st' = st\<lparr>announcements := fst (update_one ?p ?f (announcements st))\<rparr>"
    by simp_all
  have f: "?f a = a\<lparr>ann_message := message, ann_expiration_date := expiration_date\<rparr>"
    by (simp add: set_update_doc_def)
  have found: "find_one ?p (announcements st') = Some doc"
    using update_one_find[of ?p ?f "announcements st"] a doc st'
    by (simp add: set_update_doc_keeps_id)
  have others: "filter (\<lambda>b. \<not> ?p b) (announcements st') = filter (\<lambda>b. \<not> ?p b) (announcements st)"
    using update_one_others[of ?p ?f "announcements st"] st'
    by (simp add: set_update_doc_keeps_id)
  show ?thesis
    using a doc f found others st' by simp
qed

text \<open>The welcome announcement keeps its start date.\<close>

theorem update_announcement_without_start_date_witness:
  "update_announcement school ''a1'' ''mrodriguez'' ''Hello'' ''2099-01-01'' None =
     (Inr (welcome_back\<lparr>ann_message := ''Hello''\<rparr>),
      school\<lparr>announcements := [welcome_back\<lparr>ann_message := ''Hello''\<rparr>]\<rparr>)
   \<and> ann_start_date (welcome_back\<lparr>ann_message := ''Hello''\<rparr>) = Some ''2025-09-01''
   \<and> ann_start_date (welcome_back\<lparr>ann_message := ''Hello''\<rparr>) = ann_start_date welcome_back"
proof -
  have r: "update_announcement school ''a1'' ''mrodriguez'' ''Hello'' ''2099-01-01'' None =
     (Inr (welcome_back\<lparr>ann_message := ''Hello''\<rparr>),
      school\<lparr>announcements := [welcome_back\<lparr>ann_message := ''Hello''\<rparr>]\<rparr>)"
    using school_authenticated strptime_2099
    by (simp add: update_announcement_def dates_raise_def school_def welcome_back_def
        set_update_doc_def find_one_def)
  have w: "find_one (\<lambda>a. ann_id a = ''a1'') (announcements school) = Some welcome_back"
    by (simp add: school_def welcome_back_def find_one_def)
  from update_announcement_without_start_date[OF r] w
  have "ann_start_date (welcome_back\<lparr>ann_message := ''Hello''\<rparr>) = ann_start_date welcome_back"
    by auto
  with r show ?thesis by (simp add: welcome_back_def)
qed




subsection \<open>Listing activities\<close>

lemma loop_step:
  "list_activities_loop day start_time end_time (a # rest) results =
     (if reaches_results day start_time end_time a then
        list_activities_loop day start_time end_time rest
          (results(activity_key a \<mapsto> details.truncate a))
      else list_activities_loop day start_time end_time rest results)"
  by (simp add: reaches_results_def)

text \<open>A key of the result comes from the initial mapping or from an activity that
  reached the assignment.\<close>

lemma loop_sound:
  "list_activities_loop day start_time end_time as results k = Some v \<Longrightarrow>
   results k = Some v \<or>
   (\<exists>a\<in>set as. activity_key a = k \<and> details.truncate a = v \<and>
      reaches_results day start_time end_time a)"
proof (induction as arbitrary: results)
  case Nil
  then show ?case by simp
next
  case (Cons a as)
  show ?case
  proof (cases "reaches_results day start_time end_time a")
    case False
    with Cons.prems have "list_activities_loop day start_time end_time as results k = Some v"
      by (simp only: loop_step if_False)
    from Cons.IH[OF this] show ?thesis by auto
  next
    case True
    with Cons.prems have
      "list_activities_loop day start_time end_time as
         (results(activity_key a \<mapsto> details.truncate a)) k = Some v"
      by (simp only: loop_step if_True)
    from Cons.IH[OF this] True show ?thesis
      by (auto split: if_splits)
  qed
qed

lemma loop_other_key:
  "k \<notin> activity_key ` set as \<Longrightarrow>
   list_activities_loop day start_time end_time as results k = results k"
proof (induction as arbitrary: results)
  case Nil
  then show ?case by simp
next
  case (Cons a as)
  then have k: "k \<noteq> activity_key a" and rest: "k \<notin> activity_key ` set as"
    by auto
  show ?case
    using Cons.IH[OF rest] k by (simp only: loop_step fun_upd_apply split: if_splits) simp
qed

lemma loop_complete:
  assumes "distinct (map activity_key as)" and "a \<in> set as"
    and "reaches_results day start_time end_time a"
  shows "list_activities_loop day start_time end_time as results (activity_key a) =
         Some (details.truncate a)"
  using assms(1,2)
proof (induction as arbitrary: results)
  case Nil
  then show ?case by simp
next
  case (Cons x xs)
  show ?case
  proof (cases "x = a")
    case True
    have "activity_key a \<notin> activity_key ` set xs"
      using Cons.prems(1) True by simp
    from loop_other_key[OF this] assms(3) True show ?thesis
      by (simp only: loop_step if_True fun_upd_apply) simp
  next
    case False
    with Cons.prems have "a \<in> set xs" and "distinct (map activity_key xs)"
      by simp_all
    from Cons.IH[OF this(2) this(1)] show ?thesis
      by (simp only: loop_step split: if_splits) simp
  qed
qed

lemma loop_excluded:
  assumes "distinct (map activity_key as)" and "a \<in> set as"
    and "\<not> reaches_results day start_time end_time a"
  shows "list_activities_loop day start_time end_time as Map.empty (activity_key a) = None"
proof (cases "list_activities_loop day start_time end_time as Map.empty (activity_key a)")
  case None
  then show ?thesis .
next
  case (Some v)
  from loop_sound[OF this] obtain b where
    b: "b \<in> set as" "activity_key b = activity_key a" "reaches_results day start_time end_time b"
    by auto
  from assms(1) b(1,2) assms(2) have "b = a"
    by (meson distinct_map inj_onD)
  with b(3) assms(3) show ?thesis by simp
qed

text \<open>For non-empty bounds the time filter lets pass exactly the schedules with both
  times present, non-empty and inside the bounds.\<close>

lemma time_filter_skips_iff:
  "\<not> time_filter_skips lo hi sdo \<longleftrightarrow>
     (\<exists>sd s e. sdo = Some sd \<and> sd_start_time sd = Some s \<and> s \<noteq> [] \<and>
        sd_end_time sd = Some e \<and> e \<noteq> [] \<and> lo \<le> s \<and> e \<le> hi)"
proof (cases sdo)
  case None
  then show ?thesis by (simp add: time_filter_skips_def)
next
  case (Some sd)
  show ?thesis
  proof (cases "sd_start_time sd")
    case None
    with Some show ?thesis by (simp add: time_filter_skips_def)
  next
    case s: (Some s)
    show ?thesis
    proof (cases "sd_end_time sd")
      case None
      with Some s show ?thesis by (simp add: time_filter_skips_def)
    next
      case e: (Some e)
      with Some s show ?thesis
        by (auto simp: time_filter_skips_def empty_schedule_def not_less)
    qed
  qed
qed

lemma school_keys: "distinct (map activity_key (activities school))"
  by (simp add: school_def activity_key_def chess_club_def art_club_def study_hall_def)

text \<open>
  C5. In a store whose activities have distinct names, for non-empty \<^verbatim>\<open>start_time\<close>
  and \<^verbatim>\<open>end_time\<close>, an activity is in the result of \<^verbatim>\<open>list_activities\<close> exactly
  when its \<^verbatim>\<open>schedule_details\<close> has a non-empty \<^verbatim>\<open>start_time\<close> and a non-empty
  \<^verbatim>\<open>end_time\<close>, the first not before the lower bound and the second not after the upper
  bound in the lexicographic order of strings, and it passes the day filter when
  \<^verbatim>\<open>day\<close> is non-empty.
\<close>

theorem list_activities_time_range:
  assumes "distinct (map activity_key (activities st))" and "a \<in> set (activities st)"
    and "lo \<noteq> []" and "hi \<noteq> []"
  shows "list_activities st day (Some lo) (Some hi) (activity_key a) = Some (details.truncate a)
     \<longleftrightarrow>
       (\<exists>sd s e. schedule_details a = Some sd \<and> sd_start_time sd = Some s \<and> s \<noteq> [] \<and>
          sd_end_time sd = Some e \<and> e \<noteq> [] \<and> lo \<le> s \<and> e \<le> hi)
       \<and> (\<forall>d. day = Some d \<and> d \<noteq> [] \<longrightarrow> d \<in> set (days_or_empty (schedule_details a)))"
proof -
  have r: "reaches_results day (Some lo) (Some hi) a \<longleftrightarrow>
       (\<exists>sd s e. schedule_details a = Some sd \<and> sd_start_time sd = Some s \<and> s \<noteq> [] \<and>
          sd_end_time sd = Some e \<and> e \<noteq> [] \<and> lo \<le> s \<and> e \<le> hi)
       \<and> (\<forall>d. day = Some d \<and> d \<noteq> [] \<longrightarrow> d \<in> set (days_or_empty (schedule_details a)))"
    using assms(3,4) time_filter_skips_iff[of lo hi "schedule_details a"]
    by (cases day) (auto simp: reaches_results_def)
  show ?thesis
  proof (cases "reaches_results day (Some lo) (Some hi) a")
    case True
    from loop_complete[OF assms(1,2) True] True r show ?thesis
      by (simp add: list_activities_def)
  next
    case False
    from loop_excluded[OF assms(1,2) False] False r show ?thesis
      by (simp add: list_activities_def)
  qed
qed

text \<open>The chess club meets from 09:00 to 10:00: it is listed between 08:00 and 11:00 and
  not from 09:30 on.\<close>

theorem list_activities_time_range_witness:
  "list_activities school None (Some ''08:00'') (Some ''11:00'') (activity_key chess_club)
     = Some (details.truncate chess_club)
   \<and> list_activities school None (Some ''09:30'') (Some ''11:00'') (activity_key chess_club)
     \<noteq> Some (details.truncate chess_club)"
proof -
  have a: "chess_club \<in> set (activities school)"
    by (simp add: school_def)
  have "list_activities school None (Some ''08:00'') (Some ''11:00'') (activity_key chess_club)
     = Some (details.truncate chess_club)"
    using list_activities_time_range[OF school_keys a, of "''08:00''" "''11:00''" None]
    by (simp add: chess_club_def)
  moreover have "list_activities school None (Some ''09:30'') (Some ''11:00'') (activity_key chess_club)
     \<noteq> Some (details.truncate chess_club)"
    using list_activities_time_range[OF school_keys a, of "''09:30''" "''11:00''" None]
    by (simp add: chess_club_def)
  ultimately show ?thesis by simp
qed

text \<open>
  C5, read with bounds that are merely given: with an empty \<^verbatim>\<open>start_time\<close> no time
  filter runs, and the study hall, which has no \<^verbatim>\<open>schedule_details\<close>, is listed.
\<close>

theorem list_activities_empty_bound_counterexample:
  "study_hall \<in> set (activities school)
   \<and> schedule_details study_hall = None
   \<and> list_activities school None (Some []) (Some ''11:00'') (activity_key study_hall)
       = Some (details.truncate study_hall)"
  by (simp add: list_activities_def loop_step reaches_results_def school_def activity_key_def
      chess_club_def art_club_def study_hall_def)

lemma loop_no_time_filter:
  "\<not> (truthy start_time \<and> truthy end_time) \<Longrightarrow>
   list_activities_loop day start_time end_time as results =
   list_activities_loop day None None as results"
proof (induction as arbitrary: results)
  case Nil
  then show ?case by simp
next
  case (Cons a as)
  have "reaches_results day start_time end_time a = reaches_results day None None a"
    using Cons.prems by (auto simp: reaches_results_def)
  with Cons.IH[OF Cons.prems] show ?case
    by (simp only: loop_step)
qed

text \<open>
  C6. With one of \<^verbatim>\<open>start_time\<close> and \<^verbatim>\<open>end_time\<close> absent, \<^verbatim>\<open>list_activities\<close>
  returns what it returns with both absent.
\<close>

theorem list_activities_one_bound:
  "list_activities st day start_time None = list_activities st day None None
   \<and> list_activities st day None end_time = list_activities st day None None"
  by (simp add: list_activities_def loop_no_time_filter[of start_time None]
      loop_no_time_filter[of None end_time])

text \<open>A lower bound alone still lists the art club, which starts at 15:30, and the
  study hall.\<close>

theorem list_activities_one_bound_witness:
  "list_activities school None (Some ''16:00'') None (activity_key art_club)
     = Some (details.truncate art_club)
   \<and> list_activities school None None (Some ''08:00'') (activity_key study_hall)
     = Some (details.truncate study_hall)"
proof -
  have "list_activities school None None None (activity_key art_club)
     = Some (details.truncate art_club)"
    by (simp add: list_activities_def loop_step reaches_results_def school_def activity_key_def
        chess_club_def art_club_def study_hall_def)
  moreover have "list_activities school None None None (activity_key study_hall)
     = Some (details.truncate study_hall)"
    by (simp add: list_activities_def loop_step reaches_results_def school_def activity_key_def
        chess_club_def art_club_def study_hall_def)
  ultimately show ?thesis
    using list_activities_one_bound[of school None "Some ''16:00''" "Some ''08:00''"]
    by simp
qed

lemma days_or_empty_member:
  "d \<in> set (days_or_empty sdo) \<longleftrightarrow> (\<exists>sd ds. sdo = Some sd \<and> sd_days sd = Some ds \<and> d \<in> set ds)"
proof (cases sdo)
  case None
  then show ?thesis by (simp add: days_or_empty_def)
next
  case (Some sd)
  then show ?thesis by (cases "sd_days sd") (simp_all add: days_or_empty_def)
qed

text \<open>
  C7. For a non-empty \<^verbatim>\<open>day\<close>, every entry of the result of \<^verbatim>\<open>list_activities\<close> is
  the name and the details of an activity whose \<^verbatim>\<open>schedule_details\<close> has a
  \<^verbatim>\<open>days\<close> list with that very string in it; and no activity without
  \<^verbatim>\<open>schedule_details\<close> is in the result.
\<close>

theorem list_activities_day_filter:
  assumes "d \<noteq> []"
  shows "(\<forall>k v. list_activities st (Some d) start_time end_time k = Some v \<longrightarrow>
            (\<exists>a\<in>set (activities st). activity_key a = k \<and> details.truncate a = v \<and>
               (\<exists>sd ds. schedule_details a = Some sd \<and> sd_days sd = Some ds \<and> d \<in> set ds)))
       \<and> (\<forall>a\<in>set (activities st). schedule_details a = None \<longrightarrow>
            list_activities st (Some d) start_time end_time (activity_key a)
              \<noteq> Some (details.truncate a))"
proof -
  have sound: "\<exists>a\<in>set (activities st). activity_key a = k \<and> details.truncate a = v \<and>
               (\<exists>sd ds. schedule_details a = Some sd \<and> sd_days sd = Some ds \<and> d \<in> set ds)"
    if "list_activities st (Some d) start_time end_time k = Some v" for k v
  proof -
    from that loop_sound[of "Some d" start_time end_time "activities st" Map.empty k v]
    obtain a where a: "a \<in> set (activities st)" "activity_key a = k" "details.truncate a = v"
      "reaches_results (Some d) start_time end_time a"
      by (auto simp: list_activities_def)
    from a(4) assms have "d \<in> set (days_or_empty (schedule_details a))"
      by (simp add: reaches_results_def)
    with a(1,2,3) show ?thesis
      by (auto simp: days_or_empty_member)
  qed
  have excluded: "list_activities st (Some d) start_time end_time (activity_key a)
              \<noteq> Some (details.truncate a)"
    if "a \<in> set (activities st)" "schedule_details a = None" for a
  proof
    assume "list_activities st (Some d) start_time end_time (activity_key a)
              = Some (details.truncate a)"
    from sound[OF this] obtain b :: activity and sd where
      "details.truncate b = details.truncate a" "schedule_details b = Some sd"
      by auto
    then have "schedule_details (details.truncate a) = Some sd"
      by (metis details.select_convs(2) details.truncate_def)
    with that(2) show False
      by (simp add: details.defs)
  qed
  from sound excluded show ?thesis by blast
qed

text \<open>On Friday the chess club is listed; the study hall, without
  \<^verbatim>\<open>schedule_details\<close>, is not.\<close>

theorem list_activities_day_filter_witness:
  "list_activities school (Some ''Friday'') None None (activity_key chess_club)
     = Some (details.truncate chess_club)
   \<and> ''Friday'' \<in> set (days_or_empty (schedule_details chess_club))
   \<and> schedule_details study_hall = None
   \<and> list_activities school (Some ''Friday'') None None (activity_key study_hall)
     \<noteq> Some (details.truncate study_hall)"
proof -
  have "study_hall \<in> set (activities school)" and "schedule_details study_hall = None"
    by (simp_all add: school_def study_hall_def)
  with list_activities_day_filter[of "''Friday''" school None None]
  have "list_activities school (Some ''Friday'') None None (activity_key study_hall)
     \<noteq> Some (details.truncate study_hall)"
    by simp
  moreover have "list_activities school (Some ''Friday'') None None (activity_key chess_club)
     = Some (details.truncate chess_club)"
    by (simp add: list_activities_def loop_step reaches_results_def school_def activity_key_def
        days_or_empty_def chess_club_def art_club_def study_hall_def)
  ultimately show ?thesis
    by (simp add: days_or_empty_def chess_club_def study_hall_def)
qed

text \<open>
  C7, read with a day that is merely given: an empty \<^verbatim>\<open>day\<close> runs no day filter, and
  the study hall is listed although it has no \<^verbatim>\<open>schedule_details\<close>.
\<close>

theorem list_activities_empty_day_counterexample:
  "study_hall \<in> set (activities school)
   \<and> schedule_details study_hall = None
   \<and> list_activities school (Some []) None None (activity_key study_hall)
       = Some (details.truncate study_hall)"
  by (simp add: list_activities_def loop_step reaches_results_def school_def activity_key_def
      chess_club_def art_club_def study_hall_def)

subsection \<open>Available days\<close>

lemma foldl_append_each: "foldl (\<lambda>days day_doc. days @ [day_doc]) acc xs = acc @ xs"
  by (induction xs arbitrary: acc) simp_all

lemma get_available_days_eq:
  "get_available_days st = sort (remdups (unwind_days (activities st)))"
  by (simp add: get_available_days_def aggregate_def sort_by_id_def group_by_id_def
      foldl_append_each)

lemma set_unwind_days:
  "set (unwind_days docs) =
     (\<Union>a\<in>set docs. case schedule_details a of
                         None \<Rightarrow> {}
                       | Some sd \<Rightarrow> (case sd_days sd of None \<Rightarrow> {} | Some ds \<Rightarrow> set ds))"
proof -
  have "set (days_or_empty sdo) =
          (case sdo of None \<Rightarrow> {}
           | Some sd \<Rightarrow> (case sd_days sd of None \<Rightarrow> {} | Some ds \<Rightarrow> set ds))" for sdo
  proof (cases sdo)
    case None
    then show ?thesis by (simp add: days_or_empty_def)
  next
    case (Some sd)
    then show ?thesis by (cases "sd_days sd") (simp_all add: days_or_empty_def)
  qed
  then show ?thesis by (simp add: unwind_days_def)
qed

text \<open>
  C8. \<^verbatim>\<open>get_available_days\<close> returns the union of the \<^verbatim>\<open>schedule_details.days\<close> of
  all activities, an activity without schedule details or without days adding nothing, as
  a list without duplicates in ascending lexicographic order.
\<close>

theorem get_available_days_sorted_union:
  "set (get_available_days st) =
     (\<Union>a\<in>set (activities st). case schedule_details a of
                         None \<Rightarrow> {}
                       | Some sd \<Rightarrow> (case sd_days sd of None \<Rightarrow> {} | Some ds \<Rightarrow> set ds))
   \<and> distinct (get_available_days st)
   \<and> sorted (get_available_days st)"
  by (simp add: get_available_days_eq set_unwind_days)

text \<open>Days Monday and Friday of one activity and Monday of another give Friday, Monday.\<close>

theorem get_available_days_sorted_union_witness:
  "get_available_days school = [''Friday'', ''Monday'']
   \<and> distinct (get_available_days school) \<and> sorted (get_available_days school)"
proof -
  have "get_available_days school = [''Friday'', ''Monday'']"
    by (simp add: get_available_days_eq unwind_days_def days_or_empty_def school_def
        chess_club_def art_club_def study_hall_def)
  with get_available_days_sorted_union[of school] show ?thesis
    by simp
qed

end
